theory Spec2Isabelle
  imports Main "HOL-Library.Sublist"
begin

section \<open>Match scoring: cache-and-compute engine\<close>

text \<open>
  A shallow embedding of \<^verbatim>\<open>app/services/matching_service.py\<close>,
  \<^verbatim>\<open>app/services/gemini_service.py\<close>, \<^verbatim>\<open>app/services/groq_service.py\<close>,
  \<^verbatim>\<open>app/models/match.py\<close> and the two router entry points that call the matching
  service. Exceptions are values of type \<open>error\<close>; the database tables, the clock and a
  log of the calls made to the outside world are fields of an explicit state.
\<close>

subsection \<open>Python values\<close>

text \<open>
  What \<^verbatim>\<open>json.loads\<close> returns. A dict is the list of its items (keys distinct).
  Numbers with a fraction or an exponent (Python floats) are not part of the model.
\<close>

datatype json =
    JNull
  | JBool bool
  | JInt int
  | JStr string
  | JList "json list"
  | JObj "(string \<times> json) list"

text \<open>\<^verbatim>\<open>d.get(key, default)\<close> on a dict.\<close>

definition dict_get :: "(string \<times> json) list \<Rightarrow> string \<Rightarrow> json \<Rightarrow> json" where
  "dict_get d k dflt = (case map_of d k of Some v \<Rightarrow> v | None \<Rightarrow> dflt)"

text \<open>\<^verbatim>\<open>type(v).__name__\<close>, as it appears in the messages of TypeError and AttributeError.\<close>

fun py_type_name :: "json \<Rightarrow> string" where
  "py_type_name JNull = ''NoneType''"
| "py_type_name (JBool _) = ''bool''"
| "py_type_name (JInt _) = ''int''"
| "py_type_name (JStr _) = ''str''"
| "py_type_name (JList _) = ''list''"
| "py_type_name (JObj _) = ''dict''"

text \<open>
  The built-in \<^verbatim>\<open>int(v)\<close>: the integer, or \<open>Inl\<close> the message of the exception it
  raises. Parsing a \<^verbatim>\<open>str\<close> is the interpreter's business, so it is a parameter
  \<open>int_of_str\<close>: the integer, or the message of the ValueError.
\<close>

fun py_int :: "(string \<Rightarrow> string + int) \<Rightarrow> json \<Rightarrow> string + int" where
  "py_int int_of_str (JInt i) = Inr i"
| "py_int int_of_str (JBool b) = Inr (if b then 1 else 0)"
| "py_int int_of_str (JStr s) = int_of_str s"
| "py_int int_of_str v =
     Inl (''int() argument must be a string, a bytes-like object or a real number, not ''
          @ [CHR 0x27] @ py_type_name v @ [CHR 0x27])"

text \<open>\<^verbatim>\<open>s.lower()\<close> on the ASCII letters, and the test \<^verbatim>\<open>sub in s\<close>.\<close>

definition lower_char :: "char \<Rightarrow> char" where
  "lower_char c =
     (case map_of (zip ''ABCDEFGHIJKLMNOPQRSTUVWXYZ'' ''abcdefghijklmnopqrstuvwxyz'') c of
        Some d \<Rightarrow> d | None \<Rightarrow> c)"

definition py_lower :: "string \<Rightarrow> string" where
  "py_lower s = map lower_char s"

definition py_in :: "string \<Rightarrow> string \<Rightarrow> bool" where
  "py_in sub s = sublist sub s"

text \<open>
  \<^verbatim>\<open>xs[:n]\<close>: a negative bound counts from the end.
\<close>

definition py_slice_to :: "int \<Rightarrow> 'a list \<Rightarrow> 'a list" where
  "py_slice_to n xs =
     (if 0 \<le> n then take (nat n) xs else take (nat (int (length xs) + n)) xs)"

text \<open>
  \<^verbatim>\<open>xs.sort(key=f, reverse=True)\<close>: Python's sort is stable, and with
  \<^verbatim>\<open>reverse=True\<close> elements with equal keys still keep their original order. The
  result of a stable sort is unique, so it is the stable insertion sort of the library on
  the negated key.
\<close>

definition py_sort_reverse :: "('a \<Rightarrow> int) \<Rightarrow> 'a list \<Rightarrow> 'a list" where
  "py_sort_reverse f xs = sort_key (\<lambda>x. - f x) xs"

subsection \<open>Errors\<close>

text \<open>
  \<open>HTTPException c\<close> is FastAPI's exception with status code \<open>c\<close> (the detail text
  is dropped); \<open>ValidationError\<close> is pydantic's; \<open>NotImplementedError\<close> is Python's.
\<close>

datatype error = HTTPException nat | ValidationError | NotImplementedError

subsection \<open>Records of the data model\<close>

text \<open>A row of \<^verbatim>\<open>student_profiles\<close> and a row of \<^verbatim>\<open>vacancies\<close>.\<close>

record student =
  s_id :: string
  s_user_id :: string
  s_name :: string
  s_university :: string
  s_specialty :: string
  s_skills :: "string list"
  s_technologies :: "string list"
  s_experience_text :: "string option"
  s_github_url :: "string option"
  s_resume_url :: "string option"
  s_profile_completion :: int

record vacancy =
  v_id :: string
  v_employer_id :: string
  v_title :: string
  v_company :: string
  v_description :: string
  v_required_skills :: "string list"
  v_required_technologies :: "string list"
  v_experience_years :: int
  v_is_active :: bool

text \<open>\<^verbatim>\<open>GeminiMatchPayload\<close> of \<^verbatim>\<open>app/models/match.py\<close>.\<close>

record gemini_match_payload =
  student_name :: string
  student_skills :: "string list"
  student_technologies :: "string list"
  student_experience :: "string option"
  vacancy_title :: string
  vacancy_company :: string
  vacancy_description :: string
  vacancy_required_skills :: "string list"
  vacancy_required_technologies :: "string list"
  vacancy_experience_years :: int

text \<open>
  The dict both provider adapters return. Only \<^verbatim>\<open>match_percent\<close> has been converted
  (by \<^verbatim>\<open>int\<close>); the other three entries are whatever the provider's JSON held.
\<close>

record analysis =
  a_match_percent :: int
  a_strong_skills :: json
  a_missing_skills :: json
  a_explanation :: json

text \<open>
  A row of the \<^verbatim>\<open>matches\<close> table (the dict \<^verbatim>\<open>match_data\<close>). Times are
  microseconds since the epoch, UTC.
\<close>

record match_row =
  row_student_id :: string
  row_vacancy_id :: string
  row_match_percent :: int
  row_strong_skills :: json
  row_missing_skills :: json
  row_explanation :: json
  row_cached_at :: int

text \<open>\<^verbatim>\<open>MatchResult\<close> of \<^verbatim>\<open>app/models/match.py\<close>, once validated.\<close>

record match_result =
  mr_vacancy_id :: string
  mr_title :: string
  mr_company :: string
  mr_match_percent :: int
  mr_strong_skills :: "string list"
  mr_missing_skills :: "string list"
  mr_explanation :: string
  mr_cached :: bool
  mr_cached_at :: "int option"

text \<open>The dict \<^verbatim>\<open>get_candidates_for_vacancy\<close> builds for each student.\<close>

record candidate =
  c_student_id :: string
  c_name :: string
  c_university :: string
  c_specialty :: string
  c_match_percent :: int
  c_strong_skills :: "string list"
  c_missing_skills :: "string list"
  c_explanation :: string
  c_github_url :: "string option"
  c_resume_url :: "string option"

subsection \<open>The outside world\<close>

text \<open>
  What a provider's SDK call followed by \<^verbatim>\<open>json.loads\<close> does:
  \<^item> \<open>ApiError msg\<close>: the call (or reading \<^verbatim>\<open>response.text\<close>) raised an exception
    \<open>e\<close> with \<^verbatim>\<open>str(e) = msg\<close>;
  \<^item> \<open>BadJson\<close>: the call returned and \<^verbatim>\<open>json.loads\<close> raised JSONDecodeError;
  \<^item> \<open>Json v\<close>: the call returned and \<^verbatim>\<open>json.loads\<close> returned \<open>v\<close>.
\<close>

datatype api_response = ApiError string | BadJson | Json json

text \<open>
  The environment of the engine: the setting \<^verbatim>\<open>match_cache_hours\<close>, the two models
  (the prompt is a function of the payload, so a model is indexed by the payload), the
  time a call to the primary model takes, and the interpreter's \<^verbatim>\<open>int\<close> on strings.
\<close>

record env =
  match_cache_hours :: int
  gemini :: "gemini_match_payload \<Rightarrow> api_response"
  groq :: "gemini_match_payload \<Rightarrow> api_response"
  elapsed :: "gemini_match_payload \<Rightarrow> nat"
  int_of_str :: "string \<Rightarrow> string + int"

text \<open>What the engine does to the outside, in order.\<close>

datatype event =
    CacheLookup string string
  | PrimaryCall gemini_match_payload
  | FallbackCall gemini_match_payload
  | CacheUpsert match_row

text \<open>
  The state: the three tables, the clock and the log. The \<^verbatim>\<open>matches\<close> table is
  keyed by (student id, vacancy id), the conflict target of the upsert.
\<close>

record world =
  student_profiles :: "student list"
  vacancies :: "vacancy list"
  matches :: "string \<times> string \<Rightarrow> match_row option"
  clock :: int
  trace :: "event list"

definition log_event :: "event \<Rightarrow> world \<Rightarrow> world" where
  "log_event e w = w\<lparr>trace := trace w @ [e]\<rparr>"

text \<open>\<^verbatim>\<open>timedelta(hours=h)\<close> in microseconds.\<close>

definition hours :: "int \<Rightarrow> int" where
  "hours h = h * 3600000000"

subsection \<open>The provider adapters\<close>

text \<open>
  The body of the \<^verbatim>\<open>try\<close> block after \<^verbatim>\<open>json.loads\<close>, the same in both adapters:
  \<^verbatim>\<open>parsed.get\<close> raises AttributeError unless \<open>parsed\<close> is a dict, and
  \<^verbatim>\<open>int(parsed.get("match_percent", 0))\<close> may raise. \<open>Inl\<close> carries \<^verbatim>\<open>str(e)\<close>.
\<close>

definition build_analysis :: "(string \<Rightarrow> string + int) \<Rightarrow> json \<Rightarrow> string + analysis" where
  "build_analysis ios parsed =
     (case parsed of
        JObj d \<Rightarrow>
          (case py_int ios (dict_get d ''match_percent'' (JInt 0)) of
             Inl msg \<Rightarrow> Inl msg
           | Inr p \<Rightarrow>
               Inr \<lparr>a_match_percent = p,
                    a_strong_skills = dict_get d ''strong_skills'' (JList []),
                    a_missing_skills = dict_get d ''missing_skills'' (JList []),
                    a_explanation = dict_get d ''explanation'' (JStr [])\<rparr>)
      | _ \<Rightarrow>
          Inl ([CHR 0x27] @ py_type_name parsed @ [CHR 0x27]
               @ '' object has no attribute '' @ [CHR 0x27] @ ''get'' @ [CHR 0x27]))"

text \<open>
  \<^verbatim>\<open>GroqService.analyze_match\<close>: JSONDecodeError becomes 502, every other exception
  503.
\<close>

definition groq_analyze_match ::
  "env \<Rightarrow> world \<Rightarrow> gemini_match_payload \<Rightarrow> (error + analysis) \<times> world" where
  "groq_analyze_match e w payload =
     (let w1 = log_event (FallbackCall payload) w in
      case groq e payload of
        BadJson \<Rightarrow> (Inl (HTTPException 502), w1)
      | ApiError msg \<Rightarrow> (Inl (HTTPException 503), w1)
      | Json parsed \<Rightarrow>
          (case build_analysis (int_of_str e) parsed of
             Inl msg \<Rightarrow> (Inl (HTTPException 503), w1)
           | Inr a \<Rightarrow> (Inr a, w1)))"

text \<open>
  \<^verbatim>\<open>GeminiService._groq_analyze_with_delay\<close>: it receives the Groq service, calls
  nothing and raises.
\<close>

definition groq_analyze_with_delay ::
  "(env \<Rightarrow> world \<Rightarrow> gemini_match_payload \<Rightarrow> (error + analysis) \<times> world)
     \<Rightarrow> world \<Rightarrow> (error + analysis) \<times> world" where
  "groq_analyze_with_delay groq_service w = (Inl NotImplementedError, w)"

text \<open>The test of the quota branch: \<^verbatim>\<open>"429" in error_msg or "quota" in error_msg.lower()\<close>.\<close>

definition is_quota_error :: "string \<Rightarrow> bool" where
  "is_quota_error error_msg \<longleftrightarrow> py_in ''429'' error_msg \<or> py_in ''quota'' (py_lower error_msg)"

text \<open>
  The handler \<^verbatim>\<open>except Exception as e\<close> of \<^verbatim>\<open>_sync_analyze_match\<close>: on a quota
  message it tries \<^verbatim>\<open>_groq_analyze_with_delay\<close> and turns any exception of that into
  429; every other message becomes 503.
\<close>

definition handle_exception :: "world \<Rightarrow> string \<Rightarrow> (error + analysis) \<times> world" where
  "handle_exception w error_msg =
     (if is_quota_error error_msg then
        (case groq_analyze_with_delay groq_analyze_match w of
           (Inr result, w') \<Rightarrow> (Inr result, w')
         | (Inl groq_error, w') \<Rightarrow> (Inl (HTTPException 429), w'))
      else (Inl (HTTPException 503), w))"

text \<open>
  \<^verbatim>\<open>GeminiService.analyze_match\<close> with \<^verbatim>\<open>_sync_analyze_match\<close>: one call of the
  primary model, during which the clock advances.
\<close>

definition analyze_match ::
  "env \<Rightarrow> world \<Rightarrow> gemini_match_payload \<Rightarrow> (error + analysis) \<times> world" where
  "analyze_match e w payload =
     (let w1 = (log_event (PrimaryCall payload) w)\<lparr>clock := clock w + int (elapsed e payload)\<rparr> in
      case gemini e payload of
        BadJson \<Rightarrow> (Inl (HTTPException 502), w1)
      | ApiError msg \<Rightarrow> handle_exception w1 msg
      | Json parsed \<Rightarrow>
          (case build_analysis (int_of_str e) parsed of
             Inl msg \<Rightarrow> handle_exception w1 msg
           | Inr a \<Rightarrow> (Inr a, w1)))"

subsection \<open>Constructing a \<^verbatim>\<open>MatchResult\<close>\<close>

text \<open>
  What pydantic accepts for \<^verbatim>\<open>str\<close> and for \<^verbatim>\<open>List[str]\<close> among the values of
  JSON.
\<close>

fun as_str :: "json \<Rightarrow> string option" where
  "as_str (JStr s) = Some s"
| "as_str _ = None"

fun as_str_list :: "json \<Rightarrow> string list option" where
  "as_str_list (JList vs) = those (map as_str vs)"
| "as_str_list _ = None"

text \<open>
  The constructor \<^verbatim>\<open>MatchResult(...)\<close>: pydantic checks
  \<^verbatim>\<open>match_percent: int = Field(ge=0, le=100)\<close> and the types of the other fields, and
  raises ValidationError when a check fails.
\<close>

definition MatchResult ::
  "string \<Rightarrow> string \<Rightarrow> string \<Rightarrow> int \<Rightarrow> json \<Rightarrow> json \<Rightarrow> json \<Rightarrow> bool \<Rightarrow> int option
     \<Rightarrow> error + match_result" where
  "MatchResult vid ttl co percent strong missing expl is_cached at =
     (case (as_str_list strong, as_str_list missing, as_str expl) of
        (Some ss, Some ms, Some ex) \<Rightarrow>
          (if 0 \<le> percent \<and> percent \<le> 100 then
             Inr \<lparr>mr_vacancy_id = vid, mr_title = ttl, mr_company = co,
                  mr_match_percent = percent, mr_strong_skills = ss, mr_missing_skills = ms,
                  mr_explanation = ex, mr_cached = is_cached, mr_cached_at = at\<rparr>
           else Inl ValidationError)
      | _ \<Rightarrow> Inl ValidationError)"

subsection \<open>The matching service\<close>

text \<open>
  The query on \<^verbatim>\<open>matches\<close>: the row of the pair, if its \<^verbatim>\<open>cached_at\<close> is not
  before the threshold (\<^verbatim>\<open>.gte("cached_at", cache_threshold)\<close>, \<^verbatim>\<open>.limit(1)\<close>).
\<close>

definition select_cached :: "world \<Rightarrow> string \<Rightarrow> string \<Rightarrow> int \<Rightarrow> match_row list" where
  "select_cached w student_id vacancy_id cache_threshold =
     (case matches w (student_id, vacancy_id) of
        None \<Rightarrow> []
      | Some r \<Rightarrow> if cache_threshold \<le> row_cached_at r then [r] else [])"

text \<open>\<^verbatim>\<open>upsert(match_data, on_conflict="student_id,vacancy_id")\<close>.\<close>

definition upsert :: "match_row \<Rightarrow> world \<Rightarrow> world" where
  "upsert r w =
     (log_event (CacheUpsert r) w)
       \<lparr>matches := (matches w)((row_student_id r, row_vacancy_id r) \<mapsto> r)\<rparr>"

definition make_payload :: "student \<Rightarrow> vacancy \<Rightarrow> gemini_match_payload" where
  "make_payload s v =
     \<lparr>student_name = s_name s, student_skills = s_skills s,
      student_technologies = s_technologies s, student_experience = s_experience_text s,
      vacancy_title = v_title v, vacancy_company = v_company v,
      vacancy_description = v_description v, vacancy_required_skills = v_required_skills v,
      vacancy_required_technologies = v_required_technologies v,
      vacancy_experience_years = v_experience_years v\<rparr>"

text \<open>\<^verbatim>\<open>MatchingService._get_or_compute_match\<close>.\<close>

definition get_or_compute_match ::
  "env \<Rightarrow> world \<Rightarrow> student \<Rightarrow> vacancy \<Rightarrow> (error + match_result) \<times> world" where
  "get_or_compute_match e w s v =
     (let student_id = s_id s;
          vacancy_id = v_id v;
          cache_threshold = clock w - hours (match_cache_hours e);
          w1 = log_event (CacheLookup student_id vacancy_id) w
      in case select_cached w student_id vacancy_id cache_threshold of
           cached # _ \<Rightarrow>
             (MatchResult vacancy_id (v_title v) (v_company v) (row_match_percent cached)
                (row_strong_skills cached) (row_missing_skills cached) (row_explanation cached)
                True (Some (row_cached_at cached)), w1)
         | [] \<Rightarrow>
             (case analyze_match e w1 (make_payload s v) of
                (Inl err, w2) \<Rightarrow> (Inl err, w2)
              | (Inr gemini_result, w2) \<Rightarrow>
                  (let match_data =
                         \<lparr>row_student_id = student_id, row_vacancy_id = vacancy_id,
                          row_match_percent = a_match_percent gemini_result,
                          row_strong_skills = a_strong_skills gemini_result,
                          row_missing_skills = a_missing_skills gemini_result,
                          row_explanation = a_explanation gemini_result,
                          row_cached_at = clock w2\<rparr>;
                       w3 = upsert match_data w2
                   in (MatchResult vacancy_id (v_title v) (v_company v)
                         (a_match_percent gemini_result) (a_strong_skills gemini_result)
                         (a_missing_skills gemini_result) (a_explanation gemini_result)
                         False None, w3))))"

text \<open>The loop \<^verbatim>\<open>for vacancy in vacancies\<close>: the first exception ends it.\<close>

fun match_vacancies ::
  "env \<Rightarrow> world \<Rightarrow> student \<Rightarrow> vacancy list \<Rightarrow> (error + match_result list) \<times> world" where
  "match_vacancies e w s [] = (Inr [], w)"
| "match_vacancies e w s (v # vs) =
     (case get_or_compute_match e w s v of
        (Inl err, w') \<Rightarrow> (Inl err, w')
      | (Inr r, w') \<Rightarrow>
          (case match_vacancies e w' s vs of
             (Inl err, w'') \<Rightarrow> (Inl err, w'')
           | (Inr rs, w'') \<Rightarrow> (Inr (r # rs), w'')))"

text \<open>The active vacancies, \<^verbatim>\<open>.eq("is_active", True).limit(50)\<close>.\<close>

definition active_vacancies :: "world \<Rightarrow> vacancy list" where
  "active_vacancies w = take 50 (filter v_is_active (vacancies w))"

text \<open>\<^verbatim>\<open>MatchingService.get_matches_for_student\<close>.\<close>

definition get_matches_for_student ::
  "env \<Rightarrow> world \<Rightarrow> string \<Rightarrow> int \<Rightarrow> (error + match_result list) \<times> world" where
  "get_matches_for_student e w student_id limit =
     (case find (\<lambda>s. s_id s = student_id) (student_profiles w) of
        None \<Rightarrow> (Inl (HTTPException 404), w)
      | Some s \<Rightarrow>
          (let vs = active_vacancies w in
           if vs = [] then (Inr [], w)
           else
             (case match_vacancies e w s vs of
                (Inl err, w') \<Rightarrow> (Inl err, w')
              | (Inr results, w') \<Rightarrow>
                  (Inr (py_slice_to limit (py_sort_reverse mr_match_percent results)), w'))))"

text \<open>The loop \<^verbatim>\<open>for student in students\<close> of \<^verbatim>\<open>get_candidates_for_vacancy\<close>.\<close>

fun match_students ::
  "env \<Rightarrow> world \<Rightarrow> vacancy \<Rightarrow> student list \<Rightarrow> (error + candidate list) \<times> world" where
  "match_students e w v [] = (Inr [], w)"
| "match_students e w v (s # ss) =
     (case get_or_compute_match e w s v of
        (Inl err, w') \<Rightarrow> (Inl err, w')
      | (Inr r, w') \<Rightarrow>
          (let c = \<lparr>c_student_id = s_id s, c_name = s_name s, c_university = s_university s,
                    c_specialty = s_specialty s, c_match_percent = mr_match_percent r,
                    c_strong_skills = mr_strong_skills r, c_missing_skills = mr_missing_skills r,
                    c_explanation = mr_explanation r, c_github_url = s_github_url s,
                    c_resume_url = s_resume_url s\<rparr>
           in case match_students e w' v ss of
                (Inl err, w'') \<Rightarrow> (Inl err, w'')
              | (Inr cs, w'') \<Rightarrow> (Inr (c # cs), w'')))"

text \<open>The students considered, \<^verbatim>\<open>.gte("profile_completion", 30)\<close>, with no limit.\<close>

definition complete_students :: "world \<Rightarrow> student list" where
  "complete_students w = filter (\<lambda>s. 30 \<le> s_profile_completion s) (student_profiles w)"

text \<open>\<^verbatim>\<open>MatchingService.get_candidates_for_vacancy\<close>.\<close>

definition get_candidates_for_vacancy ::
  "env \<Rightarrow> world \<Rightarrow> string \<Rightarrow> int \<Rightarrow> (error + candidate list) \<times> world" where
  "get_candidates_for_vacancy e w vacancy_id limit =
     (case find (\<lambda>v. v_id v = vacancy_id) (vacancies w) of
        None \<Rightarrow> (Inl (HTTPException 404), w)
      | Some v \<Rightarrow>
          (case match_students e w v (complete_students w) of
             (Inl err, w') \<Rightarrow> (Inl err, w')
           | (Inr candidates, w') \<Rightarrow>
               (Inr (py_slice_to limit (py_sort_reverse c_match_percent candidates)), w')))"

subsection \<open>The router entry points\<close>

text \<open>
  \<^verbatim>\<open>get_student_matches\<close> of \<^verbatim>\<open>app/routers/students.py\<close>: the profile of the
  current user, then the service with \<^verbatim>\<open>limit=min(limit, 20)\<close>.
\<close>

definition get_student_matches ::
  "env \<Rightarrow> world \<Rightarrow> string \<Rightarrow> int \<Rightarrow> (error + match_result list) \<times> world" where
  "get_student_matches e w user_id limit =
     (case find (\<lambda>s. s_user_id s = user_id) (student_profiles w) of
        None \<Rightarrow> (Inl (HTTPException 404), w)
      | Some profile \<Rightarrow> get_matches_for_student e w (s_id profile) (min limit 20))"

text \<open>
  \<^verbatim>\<open>get_vacancy_candidates\<close> of \<^verbatim>\<open>app/routers/employers.py\<close>: the vacancy must
  exist and belong to the current user.
\<close>

definition get_vacancy_candidates ::
  "env \<Rightarrow> world \<Rightarrow> string \<Rightarrow> string \<Rightarrow> int \<Rightarrow> (error + candidate list) \<times> world" where
  "get_vacancy_candidates e w user_id vacancy_id limit =
     (case find (\<lambda>v. v_id v = vacancy_id) (vacancies w) of
        None \<Rightarrow> (Inl (HTTPException 404), w)
      | Some existing \<Rightarrow>
          if v_employer_id existing \<noteq> user_id then (Inl (HTTPException 403), w)
          else get_candidates_for_vacancy e w vacancy_id (min limit 20))"

subsection \<open>Reading the log\<close>

fun is_lookup :: "event \<Rightarrow> bool" where
  "is_lookup (CacheLookup _ _) = True"
| "is_lookup _ = False"

fun is_primary :: "event \<Rightarrow> bool" where
  "is_primary (PrimaryCall _) = True"
| "is_primary _ = False"

fun is_fallback :: "event \<Rightarrow> bool" where
  "is_fallback (FallbackCall _) = True"
| "is_fallback _ = False"

fun is_upsert :: "event \<Rightarrow> bool" where
  "is_upsert (CacheUpsert _) = True"
| "is_upsert _ = False"

definition count_events :: "(event \<Rightarrow> bool) \<Rightarrow> world \<Rightarrow> nat" where
  "count_events p w = length (filter p (trace w))"

subsection \<open>Freshness, in the words of the specification\<close>

text \<open>
  A record is fresh iff \<open>now - timestamp \<le> window\<close>; a pair with no record is not
  fresh.
\<close>

definition is_fresh :: "env \<Rightarrow> world \<Rightarrow> student \<Rightarrow> vacancy \<Rightarrow> bool" where
  "is_fresh e w s v =
     (case matches w (s_id s, v_id v) of
        None \<Rightarrow> False
      | Some r \<Rightarrow> clock w - row_cached_at r \<le> hours (match_cache_hours e))"

subsection \<open>The state after the cache lookup and one call of the primary provider\<close>

definition after_primary :: "env \<Rightarrow> world \<Rightarrow> student \<Rightarrow> vacancy \<Rightarrow> world" where
  "after_primary e w s v =
     (log_event (PrimaryCall (make_payload s v)) (log_event (CacheLookup (s_id s) (v_id v)) w))
       \<lparr>clock := clock w + int (elapsed e (make_payload s v))\<rparr>"

subsection \<open>Concrete inputs\<close>

definition ex_student :: student where
  "ex_student =
     \<lparr>s_id = ''s1'', s_user_id = ''u1'', s_name = ''Aliya'', s_university = ''KazNU'',
      s_specialty = ''CS'', s_skills = [''teamwork''], s_technologies = [''Python''],
      s_experience_text = None, s_github_url = None, s_resume_url = None,
      s_profile_completion = 75\<rparr>"

definition ex_vacancy :: "string \<Rightarrow> vacancy" where
  "ex_vacancy vid =
     \<lparr>v_id = vid, v_employer_id = ''e1'', v_title = ''Backend developer'',
      v_company = ''Acme'', v_description = ''FastAPI services'',
      v_required_skills = [], v_required_technologies = [''Python''],
      v_experience_years = 0, v_is_active = True\<rparr>"

text \<open>A response that follows the prompt, with the given score.\<close>

definition ex_reply :: "int \<Rightarrow> json" where
  "ex_reply n =
     JObj [(''match_percent'', JInt n), (''strong_skills'', JList [JStr ''Python'']),
           (''missing_skills'', JList [JStr ''Docker'']), (''explanation'', JStr ''ok'')]"

text \<open>The same response without the score.\<close>

definition ex_reply_no_score :: json where
  "ex_reply_no_score =
     JObj [(''strong_skills'', JList [JStr ''Python'']),
           (''missing_skills'', JList [JStr ''Docker'']), (''explanation'', JStr ''ok'')]"

definition ex_env :: "api_response \<Rightarrow> api_response \<Rightarrow> env" where
  "ex_env primary fallback =
     \<lparr>match_cache_hours = 24, gemini = (\<lambda>_. primary), groq = (\<lambda>_. fallback),
      elapsed = (\<lambda>_. 2000000), int_of_str = (\<lambda>_. Inl ''invalid literal for int()'')\<rparr>"

text \<open>A world with one student, the given vacancies, the given cache and clock.\<close>

definition ex_world ::
  "vacancy list \<Rightarrow> (string \<times> string \<Rightarrow> match_row option) \<Rightarrow> int \<Rightarrow> world" where
  "ex_world vs cache now =
     \<lparr>student_profiles = [ex_student], vacancies = vs, matches = cache, clock = now,
      trace = []\<rparr>"

text \<open>A cached row for the pair (s1, v1), computed at the given time.\<close>

definition ex_row :: "int \<Rightarrow> int \<Rightarrow> match_row" where
  "ex_row n t =
     \<lparr>row_student_id = ''s1'', row_vacancy_id = ''v1'', row_match_percent = n,
      row_strong_skills = JList [JStr ''Python''], row_missing_skills = JList [],
      row_explanation = JStr ''cached'', row_cached_at = t\<rparr>"

text \<open>Three cached rows of the student s1: 70 for v1, 90 for v2, 70 for v3.\<close>

definition ex_cache3 :: "string \<times> string \<Rightarrow> match_row option" where
  "ex_cache3 =
     [(''s1'', ''v1'') \<mapsto> ex_row 70 0,
      (''s1'', ''v2'') \<mapsto> (ex_row 90 0)\<lparr>row_vacancy_id := ''v2''\<rparr>,
      (''s1'', ''v3'') \<mapsto> (ex_row 70 0)\<lparr>row_vacancy_id := ''v3''\<rparr>]"

text \<open>\<open>k\<close> students with complete profiles and the ids s, ss, sss, ...\<close>

definition ex_students :: "nat \<Rightarrow> student list" where
  "ex_students k = map (\<lambda>n. ex_student\<lparr>s_id := replicate (Suc n) (CHR ''s'')\<rparr>) [0..<k]"

text \<open>Six active vacancies.\<close>

definition ex_six :: "vacancy list" where
  "ex_six = [ex_vacancy ''v1'', ex_vacancy ''v2'', ex_vacancy ''v3'', ex_vacancy ''v4'',
             ex_vacancy ''v5'', ex_vacancy ''v6'']"

text \<open>The message of a quota error of the primary provider's SDK.\<close>

definition ex_quota_message :: string where
  "ex_quota_message = ''429 Resource has been exhausted (e.g. check quota).''"

section \<open>Properties\<close>

subsection \<open>Unfolding on concrete inputs\<close>

lemmas eval_defs =
  get_or_compute_match_def ex_env_def ex_world_def ex_student_def ex_vacancy_def ex_reply_def
  ex_reply_no_score_def ex_row_def ex_cache3_def select_cached_def analyze_match_def
  groq_analyze_match_def build_analysis_def dict_get_def log_event_def upsert_def
  MatchResult_def make_payload_def Let_def get_candidates_for_vacancy_def
  complete_students_def count_events_def py_slice_to_def py_sort_reverse_def hours_def
  get_matches_for_student_def active_vacancies_def handle_exception_def
  groq_analyze_with_delay_def is_quota_error_def py_in_def py_lower_def lower_char_def
  get_student_matches_def is_fresh_def

subsection \<open>One pair: cache hit and cache miss\<close>

lemma analyze_match_world:
  "snd (analyze_match e w p) =
     (log_event (PrimaryCall p) w)\<lparr>clock := clock w + int (elapsed e p)\<rparr>"
  by (simp add: analyze_match_def handle_exception_def groq_analyze_with_delay_def Let_def
           split: api_response.splits sum.splits)

lemma select_cached_is_fresh:
  "select_cached w (s_id s) (v_id v) (clock w - hours (match_cache_hours e)) =
     (case matches w (s_id s, v_id v) of
        None \<Rightarrow> []
      | Some r \<Rightarrow> if is_fresh e w s v then [r] else [])"
  by (auto simp: select_cached_def is_fresh_def split: option.splits)

lemma get_or_compute_match_hit:
  assumes "matches w (s_id s, v_id v) = Some r" and "is_fresh e w s v"
  shows "get_or_compute_match e w s v =
           (MatchResult (v_id v) (v_title v) (v_company v) (row_match_percent r)
              (row_strong_skills r) (row_missing_skills r) (row_explanation r)
              True (Some (row_cached_at r)),
            log_event (CacheLookup (s_id s) (v_id v)) w)"
  using assms by (simp add: get_or_compute_match_def select_cached_is_fresh Let_def)

lemma get_or_compute_match_miss:
  assumes "\<not> is_fresh e w s v"
  shows "get_or_compute_match e w s v =
           (case fst (analyze_match e (log_event (CacheLookup (s_id s) (v_id v)) w)
                        (make_payload s v)) of
              Inl err \<Rightarrow> (Inl err, after_primary e w s v)
            | Inr g \<Rightarrow>
                (MatchResult (v_id v) (v_title v) (v_company v) (a_match_percent g)
                   (a_strong_skills g) (a_missing_skills g) (a_explanation g) False None,
                 upsert \<lparr>row_student_id = s_id s, row_vacancy_id = v_id v,
                         row_match_percent = a_match_percent g,
                         row_strong_skills = a_strong_skills g,
                         row_missing_skills = a_missing_skills g,
                         row_explanation = a_explanation g,
                         row_cached_at = clock (after_primary e w s v)\<rparr>
                   (after_primary e w s v)))"
proof -
  let ?w1 = "log_event (CacheLookup (s_id s) (v_id v)) w"
  have sel: "select_cached w (s_id s) (v_id v) (clock w - hours (match_cache_hours e)) = []"
    using assms by (simp add: select_cached_is_fresh split: option.splits)
  have snd_a: "snd (analyze_match e ?w1 (make_payload s v)) = after_primary e w s v"
    by (simp add: analyze_match_world after_primary_def log_event_def)
  obtain res w2 where a: "analyze_match e ?w1 (make_payload s v) = (res, w2)"
    by (cases "analyze_match e ?w1 (make_payload s v)")
  with snd_a have w2: "w2 = after_primary e w s v" by simp
  show ?thesis
    using sel a w2 by (simp add: get_or_compute_match_def Let_def split: sum.splits)
qed

lemma is_fresh_Some:
  assumes "is_fresh e w s v"
  obtains r where "matches w (s_id s, v_id v) = Some r"
  using assms by (auto simp: is_fresh_def split: option.splits)

lemma MatchResult_Inr:
  assumes "MatchResult vid ttl co p strong missing expl c t = Inr r"
  shows "0 \<le> mr_match_percent r \<and> mr_match_percent r \<le> 100 \<and> mr_vacancy_id r = vid
         \<and> mr_match_percent r = p"
  using assms by (auto simp: MatchResult_def split: option.splits if_splits)

lemma MatchResult_out_of_range:
  "\<not> (0 \<le> p \<and> p \<le> 100) \<Longrightarrow>
     MatchResult vid ttl co p strong missing expl c t = Inl ValidationError"
  by (auto simp: MatchResult_def split: option.splits)

lemma trace_after_primary:
  "trace (after_primary e w s v) =
     trace w @ [CacheLookup (s_id s) (v_id v), PrimaryCall (make_payload s v)]"
  by (simp add: after_primary_def log_event_def)

lemma matches_after_primary: "matches (after_primary e w s v) = matches w"
  by (simp add: after_primary_def log_event_def)

lemma trace_upsert: "trace (upsert r w) = trace w @ [CacheUpsert r]"
  by (simp add: upsert_def log_event_def)

lemma get_or_compute_match_fallback:
  "filter is_fallback (trace (snd (get_or_compute_match e w s v))) =
     filter is_fallback (trace w)"
proof (cases "is_fresh e w s v")
  case True
  then obtain r where "matches w (s_id s, v_id v) = Some r" by (rule is_fresh_Some)
  with True show ?thesis
    by (simp add: get_or_compute_match_hit log_event_def)
next
  case False
  then show ?thesis
    by (simp add: get_or_compute_match_miss trace_after_primary trace_upsert split: sum.splits)
qed

lemma get_or_compute_match_lookups:
  "filter is_lookup (trace (snd (get_or_compute_match e w s v))) =
     filter is_lookup (trace w) @ [CacheLookup (s_id s) (v_id v)]"
proof (cases "is_fresh e w s v")
  case True
  then obtain r where "matches w (s_id s, v_id v) = Some r" by (rule is_fresh_Some)
  with True show ?thesis
    by (simp add: get_or_compute_match_hit log_event_def)
next
  case False
  then show ?thesis
    by (simp add: get_or_compute_match_miss trace_after_primary trace_upsert split: sum.splits)
qed

lemma get_or_compute_match_primary_miss:
  assumes "\<not> is_fresh e w s v"
  shows "filter is_primary (trace (snd (get_or_compute_match e w s v))) =
           filter is_primary (trace w) @ [PrimaryCall (make_payload s v)]"
  using assms
  by (simp add: get_or_compute_match_miss trace_after_primary trace_upsert split: sum.splits)

lemma get_or_compute_match_bad_json:
  assumes "\<not> is_fresh e w s v" and "gemini e (make_payload s v) = BadJson"
  shows "get_or_compute_match e w s v = (Inl (HTTPException 502), after_primary e w s v)"
proof -
  have "fst (analyze_match e (log_event (CacheLookup (s_id s) (v_id v)) w)
                  (make_payload s v)) = Inl (HTTPException 502)"
    using assms(2) by (simp add: analyze_match_def Let_def)
  with assms(1) show ?thesis by (simp add: get_or_compute_match_miss)
qed

lemma build_analysis_int:
  assumes "map_of d ''match_percent'' = Some (JInt n)"
  shows "\<exists>a. build_analysis ios (JObj d) = Inr a \<and> a_match_percent a = n
             \<and> a_strong_skills a = dict_get d ''strong_skills'' (JList [])
             \<and> a_missing_skills a = dict_get d ''missing_skills'' (JList [])
             \<and> a_explanation a = dict_get d ''explanation'' (JStr [])"
  using assms by (simp add: build_analysis_def dict_get_def)

lemma build_analysis_no_score:
  assumes "map_of d ''match_percent'' = None"
  shows "\<exists>a. build_analysis ios (JObj d) = Inr a \<and> a_match_percent a = 0
             \<and> a_strong_skills a = dict_get d ''strong_skills'' (JList [])
             \<and> a_missing_skills a = dict_get d ''missing_skills'' (JList [])
             \<and> a_explanation a = dict_get d ''explanation'' (JStr [])"
  using assms by (simp add: build_analysis_def dict_get_def)

lemma analyze_match_Json:
  assumes "gemini e p = Json parsed" and "build_analysis (int_of_str e) parsed = Inr a"
  shows "fst (analyze_match e w p) = Inr a"
  using assms by (simp add: analyze_match_def Let_def)

lemma groq_analyze_match_Json:
  assumes "groq e p = Json parsed" and "build_analysis (int_of_str e) parsed = Inr a"
  shows "fst (groq_analyze_match e w p) = Inr a"
  using assms by (simp add: groq_analyze_match_def Let_def)

lemma get_or_compute_match_computed:
  assumes "\<not> is_fresh e w s v"
    and "fst (analyze_match e (log_event (CacheLookup (s_id s) (v_id v)) w) (make_payload s v)) = Inr a"
  shows "fst (get_or_compute_match e w s v) =
           MatchResult (v_id v) (v_title v) (v_company v) (a_match_percent a)
             (a_strong_skills a) (a_missing_skills a) (a_explanation a) False None
         \<and> map_option row_match_percent (matches (snd (get_or_compute_match e w s v)) (s_id s, v_id v))
             = Some (a_match_percent a)"
  using assms by (simp add: get_or_compute_match_miss upsert_def log_event_def)

lemma get_or_compute_match_Inr:
  assumes "fst (get_or_compute_match e w s v) = Inr r"
  shows "0 \<le> mr_match_percent r \<and> mr_match_percent r \<le> 100 \<and> mr_vacancy_id r = v_id v"
proof (cases "is_fresh e w s v")
  case True
  then obtain row where "matches w (s_id s, v_id v) = Some row" by (rule is_fresh_Some)
  with True assms show ?thesis
    by (auto simp: get_or_compute_match_hit dest: MatchResult_Inr)
next
  case False
  with assms show ?thesis
    by (auto simp: get_or_compute_match_miss split: sum.splits dest: MatchResult_Inr)
qed

subsection \<open>Fresh cached records\<close>

text \<open>
  Claim C4. When the cache holds a record for the pair whose age is within the freshness
  window (\<open>now - timestamp \<le> window\<close>) and that is a well-formed ScoreRecord (score in
  0..100, two lists of strings, a string), \<^verbatim>\<open>_get_or_compute_match\<close> returns exactly
  that record's score, lists, explanation and timestamp, tagged \<open>cached = True\<close>; the
  only thing it does to the outside is the cache lookup: the tables and the clock are
  unchanged and neither provider is called.
\<close>

theorem cache_hit_returns_cached:
  assumes "matches w (s_id s, v_id v) = Some r"
    and "clock w - row_cached_at r \<le> hours (match_cache_hours e)"
    and "0 \<le> row_match_percent r" and "row_match_percent r \<le> 100"
    and "as_str_list (row_strong_skills r) = Some strong"
    and "as_str_list (row_missing_skills r) = Some missing"
    and "as_str (row_explanation r) = Some expl"
  shows "get_or_compute_match e w s v =
           (Inr \<lparr>mr_vacancy_id = v_id v, mr_title = v_title v, mr_company = v_company v,
                 mr_match_percent = row_match_percent r, mr_strong_skills = strong,
                 mr_missing_skills = missing, mr_explanation = expl, mr_cached = True,
                 mr_cached_at = Some (row_cached_at r)\<rparr>,
            w\<lparr>trace := trace w @ [CacheLookup (s_id s) (v_id v)]\<rparr>)
         \<and> count_events is_primary (snd (get_or_compute_match e w s v)) =
             count_events is_primary w
         \<and> count_events is_fallback (snd (get_or_compute_match e w s v)) =
             count_events is_fallback w"
proof -
  have fresh: "is_fresh e w s v" using assms(1,2) by (simp add: is_fresh_def)
  have g: "get_or_compute_match e w s v =
           (Inr \<lparr>mr_vacancy_id = v_id v, mr_title = v_title v, mr_company = v_company v,
                 mr_match_percent = row_match_percent r, mr_strong_skills = strong,
                 mr_missing_skills = missing, mr_explanation = expl, mr_cached = True,
                 mr_cached_at = Some (row_cached_at r)\<rparr>,
            w\<lparr>trace := trace w @ [CacheLookup (s_id s) (v_id v)]\<rparr>)"
    using assms fresh by (simp add: get_or_compute_match_hit MatchResult_def log_event_def)
  show ?thesis unfolding g by (simp add: count_events_def)
qed

text \<open>
  The scenario of the claim: a record one hour old under the window of 24 hours, with a
  primary provider that would fail if it were called.
\<close>

theorem cache_hit_returns_cached_witness:
  "fst (get_or_compute_match (ex_env (ApiError ''boom'') BadJson)
          (ex_world [] [(''s1'', ''v1'') \<mapsto> ex_row 60 (hours 99)] (hours 100))
          ex_student (ex_vacancy ''v1'')) =
     Inr \<lparr>mr_vacancy_id = ''v1'', mr_title = ''Backend developer'', mr_company = ''Acme'',
          mr_match_percent = 60, mr_strong_skills = [''Python''], mr_missing_skills = [],
          mr_explanation = ''cached'', mr_cached = True, mr_cached_at = Some (hours 99)\<rparr>
   \<and> count_events is_primary (snd (get_or_compute_match (ex_env (ApiError ''boom'') BadJson)
          (ex_world [] [(''s1'', ''v1'') \<mapsto> ex_row 60 (hours 99)] (hours 100))
          ex_student (ex_vacancy ''v1''))) = 0"
proof -
  let ?e = "ex_env (ApiError ''boom'') BadJson"
  let ?w = "ex_world [] [(''s1'', ''v1'') \<mapsto> ex_row 60 (hours 99)] (hours 100)"
  let ?v = "ex_vacancy ''v1''"
  let ?r = "ex_row 60 (hours 99)"
  have h1: "matches ?w (s_id ex_student, v_id ?v) = Some ?r"
    by (simp add: ex_world_def ex_student_def ex_vacancy_def)
  have h2: "clock ?w - row_cached_at ?r \<le> hours (match_cache_hours ?e)"
    by (simp add: ex_world_def ex_row_def ex_env_def hours_def)
  have h3: "0 \<le> row_match_percent ?r" and h4: "row_match_percent ?r \<le> 100"
    by (simp_all add: ex_row_def)
  have h5: "as_str_list (row_strong_skills ?r) = Some [''Python'']"
    and h6: "as_str_list (row_missing_skills ?r) = Some []"
    and h7: "as_str (row_explanation ?r) = Some ''cached''"
    by (simp_all add: ex_row_def)
  from cache_hit_returns_cached [OF h1 h2 h3 h4 h5 h6 h7]
  show ?thesis
    by (simp add: ex_vacancy_def ex_row_def ex_world_def ex_student_def count_events_def)
qed

subsection \<open>Absent and stale records\<close>

text \<open>
  Claim C5. When the cache holds no record for the pair, or the record's age exceeds the
  freshness window, \<^verbatim>\<open>_get_or_compute_match\<close> calls the primary provider exactly once,
  with the payload of the pair. With the window of 24 hours a record 25 hours old is stale
  (the witness).
\<close>

theorem stale_or_absent_calls_primary_once:
  assumes "matches w (s_id s, v_id v) = None
           \<or> (\<exists>r. matches w (s_id s, v_id v) = Some r
                  \<and> hours (match_cache_hours e) < clock w - row_cached_at r)"
  shows "filter is_primary (trace (snd (get_or_compute_match e w s v))) =
           filter is_primary (trace w) @ [PrimaryCall (make_payload s v)]
         \<and> count_events is_primary (snd (get_or_compute_match e w s v)) =
             count_events is_primary w + 1"
proof -
  have stale: "\<not> is_fresh e w s v" using assms by (auto simp: is_fresh_def)
  from get_or_compute_match_primary_miss [OF stale]
  show ?thesis by (simp add: count_events_def)
qed

theorem stale_or_absent_calls_primary_once_witness:
  "match_cache_hours (ex_env (Json (ex_reply 80)) BadJson) = 24
   \<and> clock (ex_world [] [(''s1'', ''v1'') \<mapsto> ex_row 60 (hours 75)] (hours 100))
       - row_cached_at (ex_row 60 (hours 75)) = hours 25
   \<and> count_events is_primary (snd (get_or_compute_match (ex_env (Json (ex_reply 80)) BadJson)
          (ex_world [] [(''s1'', ''v1'') \<mapsto> ex_row 60 (hours 75)] (hours 100))
          ex_student (ex_vacancy ''v1''))) = 1
   \<and> mr_match_percent (projr (fst (get_or_compute_match (ex_env (Json (ex_reply 80)) BadJson)
          (ex_world [] [(''s1'', ''v1'') \<mapsto> ex_row 60 (hours 75)] (hours 100))
          ex_student (ex_vacancy ''v1'')))) = 80"
proof -
  let ?e = "ex_env (Json (ex_reply 80)) BadJson"
  let ?w = "ex_world [] [(''s1'', ''v1'') \<mapsto> ex_row 60 (hours 75)] (hours 100)"
  let ?v = "ex_vacancy ''v1''"
  have h: "matches ?w (s_id ex_student, v_id ?v) = None
           \<or> (\<exists>r. matches ?w (s_id ex_student, v_id ?v) = Some r
                  \<and> hours (match_cache_hours ?e) < clock ?w - row_cached_at r)"
    by (simp add: ex_world_def ex_student_def ex_vacancy_def ex_row_def ex_env_def hours_def)
  have c: "count_events is_primary ?w = 0"
    by (simp add: count_events_def ex_world_def)
  have r: "mr_match_percent (projr (fst (get_or_compute_match ?e ?w ex_student ?v))) = 80"
    by (simp add: eval_defs)
  from stale_or_absent_calls_primary_once [OF h] c r
  show ?thesis by (simp add: ex_env_def ex_world_def ex_row_def hours_def)
qed

subsection \<open>Undecodable output of the primary provider\<close>

text \<open>
  Claim C6. When a computation is needed and the primary provider's output is not
  decodable JSON (\<^verbatim>\<open>json.loads\<close> raises JSONDecodeError),
  \<^verbatim>\<open>_get_or_compute_match\<close> raises HTTP 502 at once: the primary provider has been
  called once, the fallback provider is not called, and the cache is unchanged.
\<close>

theorem invalid_json_propagates_without_fallback:
  assumes "\<not> is_fresh e w s v" and "gemini e (make_payload s v) = BadJson"
  shows "fst (get_or_compute_match e w s v) = Inl (HTTPException 502)
         \<and> count_events is_fallback (snd (get_or_compute_match e w s v)) =
             count_events is_fallback w
         \<and> count_events is_primary (snd (get_or_compute_match e w s v)) =
             count_events is_primary w + 1
         \<and> matches (snd (get_or_compute_match e w s v)) = matches w"
proof -
  note g = get_or_compute_match_bad_json [OF assms]
  show ?thesis
    by (simp add: g count_events_def trace_after_primary matches_after_primary)
qed

theorem invalid_json_propagates_without_fallback_witness:
  "fst (get_or_compute_match (ex_env BadJson (Json (ex_reply 80)))
          (ex_world [] Map.empty 0) ex_student (ex_vacancy ''v1'')) = Inl (HTTPException 502)
   \<and> count_events is_fallback (snd (get_or_compute_match (ex_env BadJson (Json (ex_reply 80)))
          (ex_world [] Map.empty 0) ex_student (ex_vacancy ''v1''))) = 0"
proof -
  let ?e = "ex_env BadJson (Json (ex_reply 80))"
  let ?w = "ex_world [] Map.empty 0"
  let ?v = "ex_vacancy ''v1''"
  have h1: "\<not> is_fresh ?e ?w ex_student ?v"
    by (simp add: is_fresh_def ex_world_def)
  have h2: "gemini ?e (make_payload ex_student ?v) = BadJson"
    by (simp add: ex_env_def)
  have c: "count_events is_fallback ?w = 0"
    by (simp add: count_events_def ex_world_def)
  from invalid_json_propagates_without_fallback [OF h1 h2] c
  show ?thesis by simp
qed

subsection \<open>The fallback provider\<close>

text \<open>
  Whatever the providers do, a ranking never calls \<^verbatim>\<open>GroqService.analyze_match\<close>;
  a failure of the primary call with a quota message raises 429, any other failure 503.
\<close>

lemma match_vacancies_fallback:
  "filter is_fallback (trace (snd (match_vacancies e w s vs))) = filter is_fallback (trace w)"
proof (induction vs arbitrary: w)
  case Nil
  then show ?case by simp
next
  case (Cons v vs)
  obtain res w' where g: "get_or_compute_match e w s v = (res, w')"
    by (cases "get_or_compute_match e w s v")
  then have c: "filter is_fallback (trace w') = filter is_fallback (trace w)"
    using get_or_compute_match_fallback [of e w s v] by simp
  show ?case
  proof (cases res)
    case (Inl err)
    with g c show ?thesis by simp
  next
    case (Inr r)
    with g have "snd (match_vacancies e w s (v # vs)) = snd (match_vacancies e w' s vs)"
      by (simp split: prod.splits sum.splits)
    with Cons.IH [of w'] c show ?thesis by simp
  qed
qed

lemma get_matches_for_student_fallback:
  "count_events is_fallback (snd (get_matches_for_student e w sid limit)) =
     count_events is_fallback w"
proof (cases "find (\<lambda>s. s_id s = sid) (student_profiles w)")
  case None
  then show ?thesis by (simp add: get_matches_for_student_def)
next
  case (Some s)
  have "snd (get_matches_for_student e w sid limit) = w
        \<or> snd (get_matches_for_student e w sid limit)
            = snd (match_vacancies e w s (active_vacancies w))"
    using Some by (simp add: get_matches_for_student_def Let_def split: prod.splits sum.splits)
  with match_vacancies_fallback [of e w s "active_vacancies w"]
  show ?thesis by (auto simp: count_events_def)
qed

lemma quota_error_raises_429:
  assumes "\<not> is_fresh e w s v" and "gemini e (make_payload s v) = ApiError msg"
    and "is_quota_error msg"
  shows "fst (get_or_compute_match e w s v) = Inl (HTTPException 429)"
proof -
  have "fst (analyze_match e (log_event (CacheLookup (s_id s) (v_id v)) w)
                  (make_payload s v)) = Inl (HTTPException 429)"
    using assms(2,3)
    by (simp add: analyze_match_def handle_exception_def groq_analyze_with_delay_def Let_def)
  with assms(1) show ?thesis by (simp add: get_or_compute_match_miss)
qed

lemma other_error_raises_503:
  assumes "\<not> is_fresh e w s v" and "gemini e (make_payload s v) = ApiError msg"
    and "\<not> is_quota_error msg"
  shows "fst (get_or_compute_match e w s v) = Inl (HTTPException 503)"
proof -
  have "fst (analyze_match e (log_event (CacheLookup (s_id s) (v_id v)) w)
                  (make_payload s v)) = Inl (HTTPException 503)"
    using assms(2,3)
    by (simp add: analyze_match_def handle_exception_def Let_def)
  with assms(1) show ?thesis by (simp add: get_or_compute_match_miss)
qed

text \<open>
  Claim C1, at the scenario of the specification: three active offers, the primary
  provider fails with a quota error for each of them, and the fallback provider would
  answer each of them with a score of 80. The ranking does not return three records: the
  first pair already raises HTTP 429, \<^verbatim>\<open>GroqService.analyze_match\<close> is never called,
  although it would have succeeded on the same payload.
\<close>

theorem rate_limited_ranking_fails:
  "fst (get_matches_for_student (ex_env (ApiError ex_quota_message) (Json (ex_reply 80)))
          (ex_world [ex_vacancy ''v1'', ex_vacancy ''v2'', ex_vacancy ''v3''] Map.empty 0)
          ''s1'' 10) = Inl (HTTPException 429)
   \<and> count_events is_fallback
       (snd (get_matches_for_student (ex_env (ApiError ex_quota_message) (Json (ex_reply 80)))
          (ex_world [ex_vacancy ''v1'', ex_vacancy ''v2'', ex_vacancy ''v3''] Map.empty 0)
          ''s1'' 10)) = 0
   \<and> fst (groq_analyze_match (ex_env (ApiError ex_quota_message) (Json (ex_reply 80)))
          (ex_world [ex_vacancy ''v1'', ex_vacancy ''v2'', ex_vacancy ''v3''] Map.empty 0)
          (make_payload ex_student (ex_vacancy ''v1''))) =
       Inr \<lparr>a_match_percent = 80, a_strong_skills = JList [JStr ''Python''],
            a_missing_skills = JList [JStr ''Docker''], a_explanation = JStr ''ok''\<rparr>"
  by (simp add: eval_defs ex_quota_message_def)

subsection \<open>Scores outside 0..100\<close>

text \<open>
  Claim C2 as stated fails: with \<open>match_percent = 135\<close> the adapter returns 135, it
  raises nothing, and \<^verbatim>\<open>_get_or_compute_match\<close> has written a row with 135 to the cache
  before the construction of the result fails.
\<close>

theorem out_of_range_percent_counterexample:
  "fst (analyze_match (ex_env (Json (ex_reply 135)) BadJson) (ex_world [] Map.empty 0)
          (make_payload ex_student (ex_vacancy ''v1''))) =
     Inr \<lparr>a_match_percent = 135, a_strong_skills = JList [JStr ''Python''],
          a_missing_skills = JList [JStr ''Docker''], a_explanation = JStr ''ok''\<rparr>
   \<and> map_option row_match_percent
       (matches (snd (get_or_compute_match (ex_env (Json (ex_reply 135)) BadJson)
          (ex_world [] Map.empty 0) ex_student (ex_vacancy ''v1''))) (''s1'', ''v1'')) = Some 135"
  by (simp add: eval_defs)

text \<open>
  Claim C2, amended. When the primary provider returns a JSON object whose
  \<^verbatim>\<open>match_percent\<close> is an integer \<open>n\<close>, the adapter returns \<open>n\<close> unchanged whatever
  its value: it neither rejects nor clamps it. When \<open>n\<close> is outside 0..100 and a
  computation was needed, \<^verbatim>\<open>_get_or_compute_match\<close> raises ValidationError when it
  constructs the result, so no result with that score is returned.
\<close>

theorem percent_not_checked_by_adapter:
  assumes "gemini e (make_payload s v) = Json (JObj d)"
    and "map_of d ''match_percent'' = Some (JInt n)"
  shows "(\<exists>a. fst (analyze_match e w0 (make_payload s v)) = Inr a \<and> a_match_percent a = n)
         \<and> (\<not> is_fresh e w s v \<and> (n < 0 \<or> 100 < n) \<longrightarrow>
              fst (get_or_compute_match e w s v) = Inl ValidationError)"
proof -
  from build_analysis_int [OF assms(2)]
  obtain a where b: "build_analysis (int_of_str e) (JObj d) = Inr a" and n: "a_match_percent a = n"
    by blast
  have a: "fst (analyze_match e w' (make_payload s v)) = Inr a" for w'
    by (rule analyze_match_Json [OF assms(1) b])
  have "fst (get_or_compute_match e w s v) = Inl ValidationError"
    if "\<not> is_fresh e w s v" and "n < 0 \<or> 100 < n"
  proof -
    from that(2) have "\<not> (0 \<le> a_match_percent a \<and> a_match_percent a \<le> 100)" using n by auto
    with get_or_compute_match_computed [OF that(1) a] show ?thesis
      by (simp add: MatchResult_out_of_range)
  qed
  with a n show ?thesis by blast
qed

theorem percent_not_checked_by_adapter_witness:
  "(\<exists>a. fst (analyze_match (ex_env (Json (ex_reply 135)) BadJson) (ex_world [] Map.empty 0)
             (make_payload ex_student (ex_vacancy ''v1''))) = Inr a \<and> a_match_percent a = 135)
   \<and> fst (get_or_compute_match (ex_env (Json (ex_reply 135)) BadJson) (ex_world [] Map.empty 0)
            ex_student (ex_vacancy ''v1'')) = Inl ValidationError"
proof -
  let ?e = "ex_env (Json (ex_reply 135)) BadJson"
  let ?w = "ex_world [] Map.empty 0"
  let ?d = "[(''match_percent'', JInt 135), (''strong_skills'', JList [JStr ''Python'']),
             (''missing_skills'', JList [JStr ''Docker'']), (''explanation'', JStr ''ok'')]"
  have h1: "gemini ?e (make_payload ex_student (ex_vacancy ''v1'')) = Json (JObj ?d)"
    by (simp add: ex_env_def ex_reply_def)
  have h2: "map_of ?d ''match_percent'' = Some (JInt 135)" by simp
  have h3: "\<not> is_fresh ?e ?w ex_student (ex_vacancy ''v1'')"
    by (simp add: is_fresh_def ex_world_def)
  from percent_not_checked_by_adapter [OF h1 h2, of ?w ?w] h3 show ?thesis by simp
qed

subsection \<open>Responses without a score\<close>

text \<open>
  Claim C3 as stated fails: a JSON object without \<^verbatim>\<open>match_percent\<close> raises nothing;
  the pair is returned and cached with the score 0.
\<close>

theorem missing_score_counterexample:
  "fst (get_or_compute_match (ex_env (Json ex_reply_no_score) BadJson) (ex_world [] Map.empty 0)
          ex_student (ex_vacancy ''v1'')) =
     Inr \<lparr>mr_vacancy_id = ''v1'', mr_title = ''Backend developer'', mr_company = ''Acme'',
          mr_match_percent = 0, mr_strong_skills = [''Python''], mr_missing_skills = [''Docker''],
          mr_explanation = ''ok'', mr_cached = False, mr_cached_at = None\<rparr>
   \<and> map_option row_match_percent
       (matches (snd (get_or_compute_match (ex_env (Json ex_reply_no_score) BadJson)
          (ex_world [] Map.empty 0) ex_student (ex_vacancy ''v1''))) (''s1'', ''v1'')) = Some 0"
  by (simp add: eval_defs)

text \<open>
  Claim C3, amended. A JSON object without \<^verbatim>\<open>match_percent\<close> is not an error for
  either adapter: the score is taken to be 0, and the record that
  \<^verbatim>\<open>_get_or_compute_match\<close> returns and the row it caches for the pair hold 0. A
  response of the primary provider that is not decodable JSON raises HTTP 502 and leaves
  the cache as it was.
\<close>

theorem missing_score_defaults_to_zero:
  "(gemini e p = Json (JObj d) \<and> map_of d ''match_percent'' = None \<longrightarrow>
      (\<exists>a. fst (analyze_match e w0 p) = Inr a \<and> a_match_percent a = 0))
   \<and> (groq e p = Json (JObj d) \<and> map_of d ''match_percent'' = None \<longrightarrow>
      (\<exists>a. fst (groq_analyze_match e w0 p) = Inr a \<and> a_match_percent a = 0))
   \<and> (\<not> is_fresh e w s v \<and> gemini e (make_payload s v) = Json (JObj d)
        \<and> map_of d ''match_percent'' = None \<and> fst (get_or_compute_match e w s v) = Inr r \<longrightarrow>
      mr_match_percent r = 0
      \<and> map_option row_match_percent
          (matches (snd (get_or_compute_match e w s v)) (s_id s, v_id v)) = Some 0)
   \<and> (\<not> is_fresh e w s v \<and> gemini e (make_payload s v) = BadJson \<longrightarrow>
      fst (get_or_compute_match e w s v) = Inl (HTTPException 502)
      \<and> matches (snd (get_or_compute_match e w s v)) = matches w)"
proof (intro conjI impI; (elim conjE)?)
  assume "gemini e p = Json (JObj d)" and m: "map_of d ''match_percent'' = None"
  with build_analysis_no_score [OF m, of "int_of_str e"]
  show "\<exists>a. fst (analyze_match e w0 p) = Inr a \<and> a_match_percent a = 0"
    by (auto simp: analyze_match_Json)
next
  assume "groq e p = Json (JObj d)" and m: "map_of d ''match_percent'' = None"
  with build_analysis_no_score [OF m, of "int_of_str e"]
  show "\<exists>a. fst (groq_analyze_match e w0 p) = Inr a \<and> a_match_percent a = 0"
    by (auto simp: groq_analyze_match_Json)
next
  assume nf: "\<not> is_fresh e w s v" and g: "gemini e (make_payload s v) = Json (JObj d)"
    and m: "map_of d ''match_percent'' = None" and r: "fst (get_or_compute_match e w s v) = Inr r"
  from build_analysis_no_score [OF m, of "int_of_str e"]
  obtain a where b: "build_analysis (int_of_str e) (JObj d) = Inr a" and z: "a_match_percent a = 0"
    by blast
  note c = get_or_compute_match_computed [OF nf analyze_match_Json [OF g b]]
  from c r have "MatchResult (v_id v) (v_title v) (v_company v) (a_match_percent a)
             (a_strong_skills a) (a_missing_skills a) (a_explanation a) False None = Inr r"
    by simp
  from MatchResult_Inr [OF this] z have "mr_match_percent r = 0" by simp
  moreover from c z have "map_option row_match_percent
          (matches (snd (get_or_compute_match e w s v)) (s_id s, v_id v)) = Some 0" by simp
  ultimately show "mr_match_percent r = 0" and "map_option row_match_percent
          (matches (snd (get_or_compute_match e w s v)) (s_id s, v_id v)) = Some 0" by simp_all
next
  assume nf: "\<not> is_fresh e w s v" and g: "gemini e (make_payload s v) = BadJson"
  from get_or_compute_match_bad_json [OF nf g]
  show "fst (get_or_compute_match e w s v) = Inl (HTTPException 502)"
    and "matches (snd (get_or_compute_match e w s v)) = matches w"
    by (simp_all add: matches_after_primary)
qed

theorem missing_score_defaults_to_zero_witness:
  "(\<exists>a. fst (analyze_match (ex_env (Json ex_reply_no_score) (Json ex_reply_no_score))
             (ex_world [] Map.empty 0) (make_payload ex_student (ex_vacancy ''v1''))) = Inr a
         \<and> a_match_percent a = 0)
   \<and> (\<exists>a. fst (groq_analyze_match (ex_env (Json ex_reply_no_score) (Json ex_reply_no_score))
             (ex_world [] Map.empty 0) (make_payload ex_student (ex_vacancy ''v1''))) = Inr a
         \<and> a_match_percent a = 0)"
proof -
  let ?e = "ex_env (Json ex_reply_no_score) (Json ex_reply_no_score)"
  let ?p = "make_payload ex_student (ex_vacancy ''v1'')"
  let ?d = "[(''strong_skills'', JList [JStr ''Python'']),
             (''missing_skills'', JList [JStr ''Docker'']), (''explanation'', JStr ''ok'')]"
  have h1: "gemini ?e ?p = Json (JObj ?d)" and h2: "groq ?e ?p = Json (JObj ?d)"
    by (simp_all add: ex_env_def ex_reply_no_score_def)
  have h3: "map_of ?d ''match_percent'' = None" by simp
  from missing_score_defaults_to_zero
         [where e = ?e and p = ?p and d = ?d and ?w0.0 = "ex_world [] Map.empty 0"]
       h1 h2 h3
  show ?thesis by blast
qed

subsection \<open>Ranking: range, order, length and fan-out\<close>

lemma match_vacancies_Inr:
  "fst (match_vacancies e w s vs) = Inr rs \<Longrightarrow>
     map mr_vacancy_id rs = map v_id vs
     \<and> (\<forall>r\<in>set rs. 0 \<le> mr_match_percent r \<and> mr_match_percent r \<le> 100)"
proof (induction vs arbitrary: w rs)
  case Nil
  then show ?case by auto
next
  case (Cons v vs)
  obtain res w' where g: "get_or_compute_match e w s v = (res, w')"
    by (cases "get_or_compute_match e w s v")
  show ?case
  proof (cases res)
    case (Inl err)
    with g Cons.prems show ?thesis by simp
  next
    case (Inr r)
    obtain res2 w'' where m: "match_vacancies e w' s vs = (res2, w'')"
      by (cases "match_vacancies e w' s vs")
    show ?thesis
    proof (cases res2)
      case (Inl err)
      with g Inr m Cons.prems show ?thesis by simp
    next
      case (Inr rs')
      with g \<open>res = Inr r\<close> m Cons.prems have rs: "rs = r # rs'" by simp
      have "fst (get_or_compute_match e w s v) = Inr r" using g \<open>res = Inr r\<close> by simp
      from get_or_compute_match_Inr [OF this]
      have hd: "0 \<le> mr_match_percent r \<and> mr_match_percent r \<le> 100 \<and> mr_vacancy_id r = v_id v" .
      have "fst (match_vacancies e w' s vs) = Inr rs'" using m Inr by simp
      from Cons.IH [OF this] hd rs show ?thesis by simp
    qed
  qed
qed

lemma set_py_slice_to: "set (py_slice_to n xs) \<subseteq> set xs"
  by (auto simp: py_slice_to_def dest: in_set_takeD)

lemma set_py_sort_reverse: "set (py_sort_reverse f xs) = set xs"
  by (simp add: py_sort_reverse_def)

lemma get_matches_for_student_Inr:
  assumes "fst (get_matches_for_student e w sid limit) = Inr out"
  shows "\<exists>s results. find (\<lambda>s. s_id s = sid) (student_profiles w) = Some s
           \<and> fst (match_vacancies e w s (active_vacancies w)) = Inr results
           \<and> out = py_slice_to limit (py_sort_reverse mr_match_percent results)"
proof (cases "find (\<lambda>s. s_id s = sid) (student_profiles w)")
  case None
  with assms show ?thesis by (simp add: get_matches_for_student_def)
next
  case (Some s)
  show ?thesis
  proof (cases "active_vacancies w = []")
    case True
    with Some assms show ?thesis
      by (simp add: get_matches_for_student_def py_slice_to_def py_sort_reverse_def)
  next
    case False
    obtain res w' where m: "match_vacancies e w s (active_vacancies w) = (res, w')"
      by (cases "match_vacancies e w s (active_vacancies w)")
    with Some False assms show ?thesis
      by (cases res) (simp_all add: get_matches_for_student_def)
  qed
qed

text \<open>
  Claim C10. Every result that \<^verbatim>\<open>_get_or_compute_match\<close> returns, and so every entry
  of the list \<^verbatim>\<open>get_matches_for_student\<close> returns, has \<open>0 \<le> match_percent \<le> 100\<close>:
  for a score outside that range the constructor \<^verbatim>\<open>MatchResult\<close> raises
  ValidationError instead of building a result.
\<close>

theorem results_in_range:
  "(fst (get_or_compute_match e w s v) = Inr r \<longrightarrow>
      0 \<le> mr_match_percent r \<and> mr_match_percent r \<le> 100)
   \<and> (fst (get_matches_for_student e w sid limit) = Inr out \<longrightarrow>
      (\<forall>x\<in>set out. 0 \<le> mr_match_percent x \<and> mr_match_percent x \<le> 100))
   \<and> (p < 0 \<or> 100 < p \<longrightarrow>
      MatchResult vid ttl co p strong missing expl c t = Inl ValidationError)"
proof (intro conjI impI)
  assume "fst (get_or_compute_match e w s v) = Inr r"
  from get_or_compute_match_Inr [OF this]
  show "0 \<le> mr_match_percent r" and "mr_match_percent r \<le> 100" by simp_all
next
  assume "fst (get_matches_for_student e w sid limit) = Inr out"
  from get_matches_for_student_Inr [OF this]
  obtain st results where r: "fst (match_vacancies e w st (active_vacancies w)) = Inr results"
    and o: "out = py_slice_to limit (py_sort_reverse mr_match_percent results)" by blast
  have "set out \<subseteq> set results"
    using set_py_slice_to [of limit "py_sort_reverse mr_match_percent results"]
    by (simp add: o set_py_sort_reverse)
  with match_vacancies_Inr [OF r]
  show "\<forall>x\<in>set out. 0 \<le> mr_match_percent x \<and> mr_match_percent x \<le> 100" by blast
next
  assume "p < 0 \<or> 100 < p"
  then have "\<not> (0 \<le> p \<and> p \<le> 100)" by auto
  then show "MatchResult vid ttl co p strong missing expl c t = Inl ValidationError"
    by (rule MatchResult_out_of_range)
qed

theorem results_in_range_witness:
  "mr_match_percent (projr (fst (get_or_compute_match (ex_env (Json (ex_reply 80)) BadJson)
      (ex_world [] Map.empty 0) ex_student (ex_vacancy ''v1'')))) = 80
   \<and> MatchResult ''v1'' ''Backend developer'' ''Acme'' 135 (JList []) (JList []) (JStr ''ok'')
        False None = Inl ValidationError"
proof -
  let ?g = "get_or_compute_match (ex_env (Json (ex_reply 80)) BadJson)
      (ex_world [] Map.empty 0) ex_student (ex_vacancy ''v1'')"
  have v: "mr_match_percent (projr (fst ?g)) = 80 \<and> (\<exists>r. fst ?g = Inr r)"
    by (simp add: eval_defs)
  then obtain r where h: "fst ?g = Inr r" by blast
  have "(100::int) < 135" by simp
  with results_in_range
         [where e = "ex_env (Json (ex_reply 80)) BadJson" and w = "ex_world [] Map.empty 0"
            and s = ex_student and v = "ex_vacancy ''v1''" and r = r and p = 135
            and vid = "''v1''" and ttl = "''Backend developer''" and co = "''Acme''"
            and strong = "JList []" and missing = "JList []" and expl = "JStr ''ok''"
            and c = False and t = None]
       h v
  show ?thesis by blast
qed

lemma sorted_py_sort_reverse: "sorted_wrt (\<lambda>a b. f b \<le> f a) (py_sort_reverse f xs)"
proof -
  have "sorted (map (\<lambda>x. - f x) (sort_key (\<lambda>x. - f x) xs))" by (rule sorted_sort_key)
  then show ?thesis by (simp add: py_sort_reverse_def sorted_map)
qed

lemma py_slice_to_take: "\<exists>m. py_slice_to n xs = take m xs"
  by (auto simp: py_slice_to_def)

lemma sorted_py_slice_to: "sorted_wrt P xs \<Longrightarrow> sorted_wrt P (py_slice_to n xs)"
  by (simp add: py_slice_to_def sorted_wrt_take)

lemma stable_py_sort_reverse:
  "filter (\<lambda>y. f y = k) (py_sort_reverse f xs) = filter (\<lambda>y. f y = k) xs"
  using sort_key_stable [of "\<lambda>x. - f x" "- k" xs] by (simp add: py_sort_reverse_def)

lemma prefix_filter_py_slice_to: "prefix (filter P (py_slice_to n xs)) (filter P xs)"
proof -
  obtain m where "py_slice_to n xs = take m xs" using py_slice_to_take by blast
  then show ?thesis by (simp add: take_is_prefix filter_mono_prefix)
qed

lemma length_py_slice_to: "0 \<le> n \<Longrightarrow> int (length (py_slice_to n xs)) \<le> n"
  by (simp add: py_slice_to_def)

text \<open>
  Claim C7. The list \<^verbatim>\<open>get_matches_for_student\<close> returns is sorted by score,
  descending, and among the entries with any one score the order is the order in which
  the offers were fetched: the per-offer results are in fetch order, and the entries of
  the output with score \<open>k\<close> are an initial part of the results with score \<open>k\<close>. The
  output is a function of the fetched inputs, so it is deterministic.
\<close>

theorem ranking_sorted_stable:
  assumes "fst (get_matches_for_student e w sid limit) = Inr out"
  shows "\<exists>s results.
           find (\<lambda>s. s_id s = sid) (student_profiles w) = Some s
           \<and> fst (match_vacancies e w s (active_vacancies w)) = Inr results
           \<and> map mr_vacancy_id results = map v_id (active_vacancies w)
           \<and> sorted_wrt (\<lambda>a b. mr_match_percent b \<le> mr_match_percent a) out
           \<and> (\<forall>k. prefix (filter (\<lambda>r. mr_match_percent r = k) out)
                          (filter (\<lambda>r. mr_match_percent r = k) results))"
proof -
  from get_matches_for_student_Inr [OF assms]
  obtain s results where f: "find (\<lambda>s. s_id s = sid) (student_profiles w) = Some s"
    and r: "fst (match_vacancies e w s (active_vacancies w)) = Inr results"
    and o: "out = py_slice_to limit (py_sort_reverse mr_match_percent results)" by blast
  have ids: "map mr_vacancy_id results = map v_id (active_vacancies w)"
    using match_vacancies_Inr [OF r] by simp
  have srt: "sorted_wrt (\<lambda>a b. mr_match_percent b \<le> mr_match_percent a) out"
    unfolding o by (rule sorted_py_slice_to) (rule sorted_py_sort_reverse)
  have stab: "prefix (filter (\<lambda>r. mr_match_percent r = k) out)
                     (filter (\<lambda>r. mr_match_percent r = k) results)" for k
    using prefix_filter_py_slice_to
            [of "\<lambda>r. mr_match_percent r = k" limit "py_sort_reverse mr_match_percent results"]
    by (simp add: o stable_py_sort_reverse)
  from f r ids srt stab show ?thesis by blast
qed

theorem ranking_sorted_stable_witness:
  "map (\<lambda>r. (mr_vacancy_id r, mr_match_percent r))
     (projr (fst (get_matches_for_student (ex_env BadJson BadJson)
        (ex_world [ex_vacancy ''v1'', ex_vacancy ''v2'', ex_vacancy ''v3''] ex_cache3 (hours 1))
        ''s1'' 10))) = [(''v2'', 90), (''v1'', 70), (''v3'', 70)]
   \<and> sorted_wrt (\<lambda>a b. mr_match_percent b \<le> mr_match_percent a)
        (projr (fst (get_matches_for_student (ex_env BadJson BadJson)
        (ex_world [ex_vacancy ''v1'', ex_vacancy ''v2'', ex_vacancy ''v3''] ex_cache3 (hours 1))
        ''s1'' 10)))"
proof -
  let ?g = "get_matches_for_student (ex_env BadJson BadJson)
        (ex_world [ex_vacancy ''v1'', ex_vacancy ''v2'', ex_vacancy ''v3''] ex_cache3 (hours 1))
        ''s1'' 10"
  have "\<exists>out. fst ?g = Inr out" by (simp add: eval_defs)
  then obtain out where h: "fst ?g = Inr out" ..
  have v: "map (\<lambda>r. (mr_vacancy_id r, mr_match_percent r)) (projr (fst ?g))
             = [(''v2'', 90), (''v1'', 70), (''v3'', 70)]"
    by (simp add: eval_defs)
  from ranking_sorted_stable [OF h] have "sorted_wrt (\<lambda>a b. mr_match_percent b \<le> mr_match_percent a) out"
    by blast
  with h v show ?thesis by simp
qed

text \<open>
  Claim C8. For a requested limit \<open>limit \<ge> 0\<close> the endpoint \<^verbatim>\<open>get_student_matches\<close>
  returns at most \<open>min limit 20\<close> entries; with \<open>limit = 5\<close> and six active offers it
  returns five (the witness).
\<close>

theorem limit_bounds_result:
  assumes "0 \<le> limit" and "fst (get_student_matches e w user_id limit) = Inr out"
  shows "int (length out) \<le> min limit 20"
proof (cases "find (\<lambda>s. s_user_id s = user_id) (student_profiles w)")
  case None
  with assms(2) show ?thesis by (simp add: get_student_matches_def)
next
  case (Some profile)
  with assms(2) have "fst (get_matches_for_student e w (s_id profile) (min limit 20)) = Inr out"
    by (simp add: get_student_matches_def)
  from get_matches_for_student_Inr [OF this]
  obtain results where "out = py_slice_to (min limit 20) (py_sort_reverse mr_match_percent results)"
    by blast
  moreover have "0 \<le> min limit 20" using assms(1) by simp
  ultimately show ?thesis using length_py_slice_to by blast
qed

theorem limit_bounds_result_witness:
  "length (active_vacancies (ex_world ex_six Map.empty 0)) = 6
   \<and> length (projr (fst (get_student_matches (ex_env (Json (ex_reply 80)) BadJson)
        (ex_world ex_six Map.empty 0) ''u1'' 5))) = 5
   \<and> int (length (projr (fst (get_student_matches (ex_env (Json (ex_reply 80)) BadJson)
        (ex_world ex_six Map.empty 0) ''u1'' 5)))) \<le> min 5 20"
proof -
  let ?g = "get_student_matches (ex_env (Json (ex_reply 80)) BadJson)
        (ex_world ex_six Map.empty 0) ''u1'' 5"
  have n: "length (active_vacancies (ex_world ex_six Map.empty 0)) = 6"
    by (simp add: active_vacancies_def ex_world_def ex_six_def ex_vacancy_def)
  have l: "length (projr (fst ?g)) = 5 \<and> (\<exists>out. fst ?g = Inr out)"
    by (simp add: eval_defs ex_six_def)
  then obtain out where h: "fst ?g = Inr out" by blast
  have "(0::int) \<le> 5" by simp
  from limit_bounds_result [OF this h] n l h show ?thesis by simp
qed

lemma count_lookups_step:
  "count_events is_lookup (snd (get_or_compute_match e w s v)) = count_events is_lookup w + 1"
  by (simp add: count_events_def get_or_compute_match_lookups)

lemma match_vacancies_lookups:
  "count_events is_lookup (snd (match_vacancies e w s vs)) \<le> count_events is_lookup w + length vs"
proof (induction vs arbitrary: w)
  case Nil
  then show ?case by simp
next
  case (Cons v vs)
  obtain res w' where g: "get_or_compute_match e w s v = (res, w')"
    by (cases "get_or_compute_match e w s v")
  then have c: "count_events is_lookup w' = count_events is_lookup w + 1"
    using count_lookups_step [of e w s v] by simp
  show ?case
  proof (cases res)
    case (Inl err)
    with g c show ?thesis by simp
  next
    case (Inr r)
    with g have "snd (match_vacancies e w s (v # vs)) = snd (match_vacancies e w' s vs)"
      by (simp split: prod.splits sum.splits)
    with Cons.IH [of w'] c show ?thesis by simp
  qed
qed

lemma match_students_lookups:
  "count_events is_lookup (snd (match_students e w v ss)) \<le> count_events is_lookup w + length ss"
proof (induction ss arbitrary: w)
  case Nil
  then show ?case by simp
next
  case (Cons s ss)
  obtain res w' where g: "get_or_compute_match e w s v = (res, w')"
    by (cases "get_or_compute_match e w s v")
  then have c: "count_events is_lookup w' = count_events is_lookup w + 1"
    using count_lookups_step [of e w s v] by simp
  show ?case
  proof (cases res)
    case (Inl err)
    with g c show ?thesis by simp
  next
    case (Inr r)
    with g have "snd (match_students e w v (s # ss)) = snd (match_students e w' v ss)"
      by (simp add: Let_def split: prod.splits sum.splits)
    with Cons.IH [of w'] c show ?thesis by simp
  qed
qed

lemma length_active_vacancies: "length (active_vacancies w) \<le> 50"
  by (simp add: active_vacancies_def)

lemma analyze_match_ex_reply:
  assumes "gemini e p = Json (ex_reply n)"
  shows "fst (analyze_match e w p) =
           Inr \<lparr>a_match_percent = n, a_strong_skills = JList [JStr ''Python''],
                a_missing_skills = JList [JStr ''Docker''], a_explanation = JStr ''ok''\<rparr>"
  using assms by (simp add: analyze_match_def build_analysis_def ex_reply_def dict_get_def Let_def)

lemma match_students_all_computed:
  assumes g: "\<And>p. gemini e p = Json (ex_reply n)" and n: "0 \<le> n" "n \<le> 100"
  shows "(\<forall>s\<in>set ss. matches w (s_id s, v_id v) = None) \<Longrightarrow> distinct (map s_id ss) \<Longrightarrow>
           (\<exists>cs. fst (match_students e w v ss) = Inr cs \<and> map c_student_id cs = map s_id ss)
           \<and> filter is_primary (trace (snd (match_students e w v ss))) =
               filter is_primary (trace w) @ map (\<lambda>s. PrimaryCall (make_payload s v)) ss
           \<and> count_events is_lookup (snd (match_students e w v ss)) =
               count_events is_lookup w + length ss"
proof (induction ss arbitrary: w)
  case Nil
  then show ?case by simp
next
  case (Cons s ss)
  define row where "row =
     \<lparr>row_student_id = s_id s, row_vacancy_id = v_id v, row_match_percent = n,
      row_strong_skills = JList [JStr ''Python''], row_missing_skills = JList [JStr ''Docker''],
      row_explanation = JStr ''ok'', row_cached_at = clock (after_primary e w s v)\<rparr>"
  define w' where "w' = upsert row (after_primary e w s v)"
  have nf: "\<not> is_fresh e w s v" using Cons.prems(1) by (simp add: is_fresh_def)
  have "\<exists>r. get_or_compute_match e w s v = (Inr r, w')"
    using n by (simp add: get_or_compute_match_miss [OF nf] analyze_match_ex_reply [OF g]
                  MatchResult_def w'_def row_def)
  then obtain r where gc: "get_or_compute_match e w s v = (Inr r, w')" ..
  have m: "matches w' = (matches w)((s_id s, v_id v) \<mapsto> row)"
    by (simp add: w'_def upsert_def log_event_def matches_after_primary row_def)
  have ne: "s_id s' \<noteq> s_id s" if "s' \<in> set ss" for s'
  proof
    assume "s_id s' = s_id s"
    with that have "s_id s \<in> s_id ` set ss" by (metis imageI)
    with Cons.prems(2) show False by simp
  qed
  have none: "\<forall>s'\<in>set ss. matches w' (s_id s', v_id v) = None"
    using Cons.prems(1) ne by (simp add: m)
  have d: "distinct (map s_id ss)" using Cons.prems(2) by simp
  have tr: "filter is_primary (trace w') =
              filter is_primary (trace w) @ [PrimaryCall (make_payload s v)]"
    by (simp add: w'_def trace_upsert trace_after_primary)
  have lk: "count_events is_lookup w' = count_events is_lookup w + 1"
    using count_lookups_step [of e w s v] gc by simp
  from Cons.IH [OF none d]
  obtain cs where ok: "fst (match_students e w' v ss) = Inr cs"
    and ids: "map c_student_id cs = map s_id ss"
    and p: "filter is_primary (trace (snd (match_students e w' v ss))) =
              filter is_primary (trace w') @ map (\<lambda>s. PrimaryCall (make_payload s v)) ss"
    and l: "count_events is_lookup (snd (match_students e w' v ss)) =
              count_events is_lookup w' + length ss"
    by blast
  obtain w'' where ms: "match_students e w' v ss = (Inr cs, w'')"
    using ok by (cases "match_students e w' v ss") simp
  have step: "match_students e w v (s # ss) =
      (Inr (\<lparr>c_student_id = s_id s, c_name = s_name s, c_university = s_university s,
                    c_specialty = s_specialty s, c_match_percent = mr_match_percent r,
                    c_strong_skills = mr_strong_skills r, c_missing_skills = mr_missing_skills r,
                    c_explanation = mr_explanation r, c_github_url = s_github_url s,
                    c_resume_url = s_resume_url s\<rparr> # cs), w'')"
    using gc ms by (simp add: Let_def)
  from p l ms have p': "filter is_primary (trace w'') =
              filter is_primary (trace w') @ map (\<lambda>s. PrimaryCall (make_payload s v)) ss"
    and l': "count_events is_lookup w'' = count_events is_lookup w' + length ss" by simp_all
  show ?case unfolding step using ids p' l' tr lk by simp
qed

lemma distinct_ex_students: "distinct (map s_id (ex_students k))"
proof -
  have "inj_on (\<lambda>n. replicate (Suc n) (CHR ''s'')) A" for A
    by (rule inj_onI) (drule arg_cong [where f = length], simp)
  then show ?thesis by (simp add: ex_students_def o_def distinct_map)
qed

lemma complete_ex_students:
  "complete_students (w\<lparr>student_profiles := ex_students k\<rparr>) = ex_students k"
  by (simp add: complete_students_def ex_students_def ex_student_def filter_map o_def)

text \<open>
  Claim C9 as stated fails for the ranking of subjects for an offer: with 51 students
  whose completeness is at least 30 and an empty cache, one request computes 51 pairs
  and calls the primary provider 51 times.
\<close>

theorem candidates_fan_out_counterexample:
  "\<not> count_events is_lookup
       (snd (get_candidates_for_vacancy (ex_env (Json (ex_reply 80)) BadJson)
          ((ex_world [ex_vacancy ''v1''] Map.empty 0)\<lparr>student_profiles := ex_students 51\<rparr>)
          ''v1'' 20)) \<le> 50
   \<and> \<not> count_events is_primary
       (snd (get_candidates_for_vacancy (ex_env (Json (ex_reply 80)) BadJson)
          ((ex_world [ex_vacancy ''v1''] Map.empty 0)\<lparr>student_profiles := ex_students 51\<rparr>)
          ''v1'' 20)) \<le> 50"
proof -
  let ?e = "ex_env (Json (ex_reply 80)) BadJson"
  let ?w = "(ex_world [ex_vacancy ''v1''] Map.empty 0)\<lparr>student_profiles := ex_students 51\<rparr>"
  let ?m = "match_students ?e ?w (ex_vacancy ''v1'') (ex_students 51)"
  have f: "find (\<lambda>v. v_id v = ''v1'') (vacancies ?w) = Some (ex_vacancy ''v1'')"
    by (simp add: ex_world_def ex_vacancy_def)
  have sn: "snd (get_candidates_for_vacancy ?e ?w ''v1'' 20) = snd ?m"
    using f by (simp add: get_candidates_for_vacancy_def complete_ex_students
                     split: prod.splits sum.splits)
  have g: "\<And>p. gemini ?e p = Json (ex_reply 80)" by (simp add: ex_env_def)
  have none: "\<forall>s\<in>set (ex_students 51). matches ?w (s_id s, v_id (ex_vacancy ''v1'')) = None"
    by (simp add: ex_world_def)
  have all: "(\<exists>cs. fst ?m = Inr cs \<and> map c_student_id cs = map s_id (ex_students 51))
       \<and> filter is_primary (trace (snd ?m)) = filter is_primary (trace ?w)
            @ map (\<lambda>s. PrimaryCall (make_payload s (ex_vacancy ''v1''))) (ex_students 51)
       \<and> count_events is_lookup (snd ?m) = count_events is_lookup ?w + length (ex_students 51)"
    by (rule match_students_all_computed [OF g _ _ none distinct_ex_students]) simp_all
  have tw: "trace ?w = []" by (simp add: ex_world_def)
  have len: "length (ex_students 51) = 51" by (simp add: ex_students_def)
  have "count_events is_primary (snd ?m) = length (filter is_primary (trace (snd ?m)))"
    by (simp only: count_events_def)
  also have "\<dots> = 51" using all by (simp add: tw len)
  finally have p: "count_events is_primary (snd ?m) = 51" .
  have "count_events is_lookup ?w = 0" by (simp add: count_events_def tw)
  with all have l: "count_events is_lookup (snd ?m) = 51" by (simp add: len)
  show ?thesis unfolding sn p l by simp
qed

text \<open>
  Claim C9, amended. A request of \<^verbatim>\<open>get_matches_for_student\<close> computes at most 50
  pairs. A request of \<^verbatim>\<open>get_candidates_for_vacancy\<close> computes at most as many pairs as
  there are students with \<open>profile_completion \<ge> 30\<close>; no page size bounds that number.
\<close>

theorem fan_out_bounds:
  "count_events is_lookup (snd (get_matches_for_student e w sid limit))
     \<le> count_events is_lookup w + 50
   \<and> count_events is_lookup (snd (get_candidates_for_vacancy e w vid limit))
     \<le> count_events is_lookup w + length (complete_students w)"
proof
  show "count_events is_lookup (snd (get_matches_for_student e w sid limit))
          \<le> count_events is_lookup w + 50"
  proof (cases "find (\<lambda>s. s_id s = sid) (student_profiles w)")
    case None
    then show ?thesis by (simp add: get_matches_for_student_def)
  next
    case (Some s)
    have "snd (get_matches_for_student e w sid limit) = w
          \<or> snd (get_matches_for_student e w sid limit)
              = snd (match_vacancies e w s (active_vacancies w))"
      using Some by (simp add: get_matches_for_student_def Let_def split: prod.splits sum.splits)
    with match_vacancies_lookups [of e w s "active_vacancies w"] length_active_vacancies [of w]
    show ?thesis by auto
  qed
next
  show "count_events is_lookup (snd (get_candidates_for_vacancy e w vid limit))
          \<le> count_events is_lookup w + length (complete_students w)"
  proof (cases "find (\<lambda>v. v_id v = vid) (vacancies w)")
    case None
    then show ?thesis by (simp add: get_candidates_for_vacancy_def)
  next
    case (Some v)
    have "snd (get_candidates_for_vacancy e w vid limit)
            = snd (match_students e w v (complete_students w))"
      using Some by (simp add: get_candidates_for_vacancy_def split: prod.splits sum.splits)
    with match_students_lookups [of e w v "complete_students w"]
    show ?thesis by simp
  qed
qed

theorem fan_out_bounds_witness:
  "count_events is_lookup (snd (get_matches_for_student (ex_env BadJson BadJson)
        (ex_world [ex_vacancy ''v1'', ex_vacancy ''v2'', ex_vacancy ''v3''] ex_cache3 (hours 1))
        ''s1'' 10)) \<le> 50
   \<and> count_events is_lookup (snd (get_matches_for_student (ex_env BadJson BadJson)
        (ex_world [ex_vacancy ''v1'', ex_vacancy ''v2'', ex_vacancy ''v3''] ex_cache3 (hours 1))
        ''s1'' 10)) = 3"
proof -
  let ?e = "ex_env BadJson BadJson"
  let ?w = "ex_world [ex_vacancy ''v1'', ex_vacancy ''v2'', ex_vacancy ''v3''] ex_cache3 (hours 1)"
  have c: "count_events is_lookup ?w = 0" by (simp add: count_events_def ex_world_def)
  have v: "count_events is_lookup (snd (get_matches_for_student ?e ?w ''s1'' 10)) = 3"
    by (simp add: eval_defs)
  from fan_out_bounds [of ?e ?w "''s1''" 10] c v show ?thesis by simp
qed

end
